theory Spec2Isabelle
  imports Main "HOL-Library.Word" "HOL-Library.Finite_Map"
begin

section \<open>The peer address book of the Zcash seeder (zcash/address\_book.go)\<close>

text \<open>
  The file under verification keeps a map from peer keys (\<open>host:port\<close> texts) to
  \<open>Address\<close> records. It leans on a handful of functions of Go's standard library
  (\<open>net.SplitHostPort\<close>, \<open>net.JoinHostPort\<close>, \<open>net.ParseIP\<close>, \<open>net.IP.String\<close>,
  \<open>strconv.ParseUint\<close>, \<open>strconv.Itoa\<close>) and on btcd's \<open>wire.NetAddress\<close>. Those are
  embedded first, function by function, then the file itself.

  Go strings are byte sequences: \<open>string\<close> (a list of 8-bit \<open>char\<close>s) is the same thing.
  A byte slice is a list of \<open>8 word\<close>.
\<close>

subsection \<open>Bytes, digits, indices\<close>

type_synonym byte = "8 word"

text \<open>\<open>'0' <= c && c <= '9'\<close> and \<open>c - '0'\<close> on bytes.\<close>

definition isDigit :: "char \<Rightarrow> bool" where
  "isDigit c = (48 \<le> (of_char c :: nat) \<and> (of_char c :: nat) \<le> 57)"

definition digitVal :: "char \<Rightarrow> nat" where
  "digitVal c = (of_char c :: nat) - 48"

text \<open>The decimal digit \<open>'0' + d\<close> and the table \<open>"0123456789abcdef"\<close> (\<open>hexDigit\<close>).\<close>

definition digitChar :: "nat \<Rightarrow> char" where
  "digitChar d = char_of (48 + d)"

definition hexDigit :: "nat \<Rightarrow> char" where
  "hexDigit d = (if d < 10 then char_of (48 + d) else char_of (87 + d))"

text \<open>
  \<open>bytealg.IndexByteString\<close> and \<open>bytealg.LastIndexByteString\<close>: the index of the first
  (last) occurrence of a byte, Go's \<open>-1\<close> being \<open>None\<close>.
\<close>

fun IndexByteString :: "string \<Rightarrow> char \<Rightarrow> nat option" where
  "IndexByteString [] c = None"
| "IndexByteString (x # xs) c =
     (if x = c then Some 0 else map_option Suc (IndexByteString xs c))"

definition LastIndexByteString :: "string \<Rightarrow> char \<Rightarrow> nat option" where
  "LastIndexByteString s c =
     map_option (\<lambda>k. length s - 1 - k) (IndexByteString (rev s) c)"

text \<open>The slice \<open>s[i:j]\<close>, used only where the source has \<open>i \<le> j \<le> len(s)\<close>.\<close>

definition slice :: "'a list \<Rightarrow> nat \<Rightarrow> nat \<Rightarrow> 'a list" where
  "slice s i j = take (j - i) (drop i s)"

subsection \<open>Errors and panics\<close>

text \<open>
  The errors the library calls return (\<open>*net.AddrError\<close> with its message,
  \<open>strconv.ErrSyntax\<close>, \<open>strconv.ErrRange\<close>), and the one run-time panic the file can
  raise: dereferencing a nil pointer.
\<close>

datatype error = AddrError string | ErrSyntax | ErrRange

datatype panic = NilPointerDereference

subsection \<open>strconv\<close>

text \<open>
  \<open>strconv.Itoa\<close>: the decimal text of an \<open>int\<close>, a minus sign first when negative.
\<close>

fun formatDecimal :: "nat \<Rightarrow> string" where
  "formatDecimal n =
     (if n < 10 then [digitChar n] else formatDecimal (n div 10) @ [digitChar (n mod 10)])"

declare formatDecimal.simps [simp del]

definition Itoa :: "int \<Rightarrow> string" where
  "Itoa i = (if i < 0 then CHR ''-'' # formatDecimal (nat (- i)) else formatDecimal (nat i))"

text \<open>
  \<open>strconv.ParseUint(s, 10, 16)\<close>. The empty text is a syntax error. Each byte must be a
  decimal digit (base 10 given explicitly: no sign, no prefix, no underscore). Before each
  multiplication the accumulator is compared with \<open>cutoff = maxUint64/10 + 1\<close>, after each
  addition with \<open>maxVal = 1<<16 - 1\<close>; either failing is a range error.
\<close>

definition cutoff10 :: nat where
  "cutoff10 = (2 ^ 64 - 1) div 10 + 1"

definition maxVal16 :: nat where
  "maxVal16 = 2 ^ 16 - 1"

fun parseUintLoop :: "nat \<Rightarrow> string \<Rightarrow> error + nat" where
  "parseUintLoop n [] = Inr n"
| "parseUintLoop n (c # cs) =
     (if \<not> isDigit c then Inl ErrSyntax
      else if n \<ge> cutoff10 then Inl ErrRange
      else let n1 = n * 10 + digitVal c
           in if n1 > maxVal16 then Inl ErrRange else parseUintLoop n1 cs)"

definition ParseUint :: "string \<Rightarrow> error + nat" where
  "ParseUint s = (if s = [] then Inl ErrSyntax else parseUintLoop 0 s)"

text \<open>
  The number that a text of decimal digits denotes after the digits read so far denote
  \<open>m\<close>: what the digit loops of \<open>ParseUint\<close> and \<open>dtoi\<close> compute when nothing stops
  them. It serves to state facts about those loops.
\<close>

definition decimalValue :: "nat \<Rightarrow> string \<Rightarrow> nat" where
  "decimalValue m ds = fold (\<lambda>c acc. acc * 10 + digitVal c) ds m"

subsection \<open>net: host and port\<close>

text \<open>
  \<open>net.SplitHostPort\<close>. The port starts after the last colon. A text that opens with
  \<open>[\<close> must have its first \<open>]\<close> right before that colon, and the host is what the
  brackets enclose; otherwise the host is everything before the last colon and must hold no
  colon. No further bracket may appear.
\<close>

definition missingPort :: string where
  "missingPort = ''missing port in address''"

definition tooManyColons :: string where
  "tooManyColons = ''too many colons in address''"

definition SplitHostPort :: "string \<Rightarrow> error + (string \<times> string)" where
  "SplitHostPort hostport =
     (case LastIndexByteString hostport CHR '':'' of
        None \<Rightarrow> Inl (AddrError missingPort)
      | Some i \<Rightarrow>
          if hd hostport = CHR ''[''
          then (case IndexByteString hostport CHR '']'' of
                  None \<Rightarrow> Inl (AddrError ''missing ']' in address'')
                | Some end \<Rightarrow>
                    if end + 1 = length hostport then Inl (AddrError missingPort)
                    else if end + 1 = i then
                      (let host = slice hostport 1 end in
                       if IndexByteString (drop 1 hostport) CHR ''['' \<noteq> None
                         then Inl (AddrError ''unexpected '[' in address'')
                       else if IndexByteString (drop (end + 1) hostport) CHR '']'' \<noteq> None
                         then Inl (AddrError ''unexpected ']' in address'')
                       else Inr (host, drop (i + 1) hostport))
                    else if hostport ! (end + 1) = CHR '':''
                      then Inl (AddrError tooManyColons)
                    else Inl (AddrError missingPort))
          else (let host = take i hostport in
                if IndexByteString host CHR '':'' \<noteq> None
                  then Inl (AddrError tooManyColons)
                else if IndexByteString hostport CHR ''['' \<noteq> None
                  then Inl (AddrError ''unexpected '[' in address'')
                else if IndexByteString hostport CHR '']'' \<noteq> None
                  then Inl (AddrError ''unexpected ']' in address'')
                else Inr (host, drop (i + 1) hostport)))"

text \<open>\<open>net.JoinHostPort\<close>: a host that holds a colon is put in brackets.\<close>

definition JoinHostPort :: "string \<Rightarrow> string \<Rightarrow> string" where
  "JoinHostPort host port =
     (if IndexByteString host CHR '':'' \<noteq> None
      then ''['' @ host @ '']:'' @ port
      else host @ '':'' @ port)"

subsection \<open>net: IP addresses\<close>

text \<open>
  \<open>net.IP\<close> is a byte slice: empty (nil), four bytes (IPv4) or sixteen (IPv6, with IPv4
  addresses in the \<open>::ffff:a.b.c.d\<close> range). \<open>net.ParseIP\<close> returns nil for a text that
  is not an IP address, sixteen bytes otherwise.
\<close>

type_synonym IP = "byte list"

definition big :: nat where
  "big = 0xFFFFFF"

text \<open>
  \<open>dtoi\<close> and \<open>xtoi\<close>: the decimal (hexadecimal) number a text starts with and the count
  of bytes it takes; they fail when there is no digit or the number reaches \<open>big\<close>.
\<close>

fun dtoiLoop :: "nat \<Rightarrow> nat \<Rightarrow> string \<Rightarrow> (nat \<times> nat) option" where
  "dtoiLoop n i [] = (if i = 0 then None else Some (n, i))"
| "dtoiLoop n i (c # cs) =
     (if isDigit c
      then (let n1 = n * 10 + digitVal c
            in if n1 \<ge> big then None else dtoiLoop n1 (Suc i) cs)
      else if i = 0 then None else Some (n, i))"

definition dtoi :: "string \<Rightarrow> (nat \<times> nat) option" where
  "dtoi s = dtoiLoop 0 0 s"

definition hexVal :: "char \<Rightarrow> nat option" where
  "hexVal c =
     (let b = (of_char c :: nat) in
      if 48 \<le> b \<and> b \<le> 57 then Some (b - 48)
      else if 97 \<le> b \<and> b \<le> 102 then Some (b - 97 + 10)
      else if 65 \<le> b \<and> b \<le> 70 then Some (b - 65 + 10)
      else None)"

fun xtoiLoop :: "nat \<Rightarrow> nat \<Rightarrow> string \<Rightarrow> (nat \<times> nat) option" where
  "xtoiLoop n i [] = (if i = 0 then None else Some (n, i))"
| "xtoiLoop n i (c # cs) =
     (case hexVal c of
        Some d \<Rightarrow> (let n1 = n * 16 + d
                   in if n1 \<ge> big then None else xtoiLoop n1 (Suc i) cs)
      | None \<Rightarrow> if i = 0 then None else Some (n, i))"

definition xtoi :: "string \<Rightarrow> (nat \<times> nat) option" where
  "xtoi s = xtoiLoop 0 0 s"

text \<open>\<open>net.IPv4(a, b, c, d)\<close>: the sixteen-byte form of an IPv4 address.\<close>

definition v4InV6Prefix :: "byte list" where
  "v4InV6Prefix = [0, 0, 0, 0, 0, 0, 0, 0, 0, 0, 0xff, 0xff]"

definition IPv4 :: "byte \<Rightarrow> byte \<Rightarrow> byte \<Rightarrow> byte \<Rightarrow> IP" where
  "IPv4 a b c d = v4InV6Prefix @ [a, b, c, d]"

text \<open>
  \<open>parseIPv4\<close>: four decimal fields of at most 255, separated by dots, none with a
  leading zero, nothing after the fourth.
\<close>

function parseIPv4Loop :: "nat \<Rightarrow> string \<Rightarrow> byte list \<Rightarrow> IP" where
  "parseIPv4Loop i s p =
     (if i < 4 then
        (if s = [] then []
         else if i > 0 \<and> hd s \<noteq> CHR ''.'' then []
         else (let s1 = (if i > 0 then tl s else s) in
               case dtoi s1 of
                 None \<Rightarrow> []
               | Some (n, c) \<Rightarrow>
                   if n > 0xFF then []
                   else if c > 1 \<and> hd s1 = CHR ''0'' then []
                   else parseIPv4Loop (Suc i) (drop c s1) (p[i := of_nat n])))
      else if s \<noteq> [] then []
      else IPv4 (p ! 0) (p ! 1) (p ! 2) (p ! 3))"
  by pat_completeness auto
termination
  by (relation "measure (\<lambda>(i, s, p). 4 - i)") auto

declare parseIPv4Loop.simps [simp del]

definition parseIPv4 :: "string \<Rightarrow> IP" where
  "parseIPv4 s = parseIPv4Loop 0 s [0, 0, 0, 0]"

text \<open>
  \<open>parseIPv6\<close>: hexadecimal fields of at most \<open>0xFFFF\<close> separated by colons, at most one
  \<open>::\<close> standing for a run of zero fields, and possibly a dotted IPv4 address as the last
  four bytes. The loop returns the bytes written, how many, the place of the \<open>::\<close> and
  the text left over.
\<close>

function parseIPv6Loop ::
  "nat \<Rightarrow> string \<Rightarrow> nat option \<Rightarrow> byte list \<Rightarrow> (nat \<times> string \<times> nat option \<times> byte list) option"
where
  "parseIPv6Loop i s ellipsis ip =
     (if \<not> i < 16 then Some (i, s, ellipsis, ip)
      else case xtoi s of
        None \<Rightarrow> None
      | Some (n, c) \<Rightarrow>
          if n > 0xFFFF then None
          else if c < length s \<and> s ! c = CHR ''.'' then
            (if ellipsis = None \<and> i \<noteq> 12 then None
             else if i + 4 > 16 then None
             else (let ip4 = parseIPv4 s in
                   if ip4 = [] then None
                   else Some (i + 4, [], ellipsis,
                     ip[i := ip4 ! 12, i + 1 := ip4 ! 13, i + 2 := ip4 ! 14, i + 3 := ip4 ! 15])))
          else (let ip1 = ip[i := of_nat (n div 256), i + 1 := of_nat n];
                    s1 = drop c s in
                if s1 = [] then Some (i + 2, s1, ellipsis, ip1)
                else if hd s1 \<noteq> CHR '':'' \<or> length s1 = 1 then None
                else (let s2 = tl s1 in
                      if hd s2 = CHR '':'' then
                        (if ellipsis \<noteq> None then None
                         else if tl s2 = [] then Some (i + 2, [], Some (i + 2), ip1)
                         else parseIPv6Loop (i + 2) (tl s2) (Some (i + 2)) ip1)
                      else parseIPv6Loop (i + 2) s2 ellipsis ip1)))"
  by pat_completeness auto
termination
  by (relation "measure (\<lambda>(i, s, e, ip). 16 - i)") auto

declare parseIPv6Loop.simps [simp del]

definition parseIPv6 :: "string \<Rightarrow> IP" where
  "parseIPv6 s =
     (let lead = (length s \<ge> 2 \<and> s ! 0 = CHR '':'' \<and> s ! 1 = CHR '':'');
          s0 = (if lead then drop 2 s else s);
          ellipsis0 = (if lead then Some 0 else None)
      in if lead \<and> s0 = [] then replicate 16 0
         else case parseIPv6Loop 0 s0 ellipsis0 (replicate 16 0) of
           None \<Rightarrow> []
         | Some (i, rest, ellipsis, ip) \<Rightarrow>
             if rest \<noteq> [] then []
             else if i < 16 then
               (case ellipsis of
                  None \<Rightarrow> []
                | Some e \<Rightarrow>
                    (let n = 16 - i;
                         moved = fold (\<lambda>j q. q[j + n := q ! j]) (rev [e..<i]) ip
                     in fold (\<lambda>j q. q[j := 0]) (rev [e..<e + n]) moved))
             else if ellipsis \<noteq> None then []
             else ip)"

text \<open>
  \<open>net.ParseIP\<close>: the first dot or colon of the text decides between the two parsers; a
  text with neither is not an address.
\<close>

fun ParseIPscan :: "string \<Rightarrow> string \<Rightarrow> IP" where
  "ParseIPscan s [] = []"
| "ParseIPscan s (c # cs) =
     (if c = CHR ''.'' then parseIPv4 s
      else if c = CHR '':'' then parseIPv6 s
      else ParseIPscan s cs)"

definition ParseIP :: "string \<Rightarrow> IP" where
  "ParseIP s = ParseIPscan s s"

text \<open>
  \<open>IP.To4\<close> and \<open>IP.String\<close>. Nil renders as \<open><nil>\<close>, an IPv4 address (four bytes, or
  sixteen in the IPv4 range) in dotted decimal, a slice of any other length than sixteen
  as \<open>?\<close> and its bytes in hexadecimal. An IPv6 address is its eight fields in lower-case
  hexadecimal without leading zeros, separated by colons, the longest run of two or more
  zero fields (the first such, among equals) replaced by \<open>::\<close>.
\<close>

definition To4 :: "IP \<Rightarrow> IP" where
  "To4 ip =
     (if length ip = 4 then ip
      else if length ip = 16 \<and> list_all (\<lambda>b. b = 0) (take 10 ip) \<and> ip ! 10 = 0xff \<and> ip ! 11 = 0xff
        then slice ip 12 16
      else [])"

definition ubtoa :: "byte \<Rightarrow> string" where
  "ubtoa v = formatDecimal (unat v)"

fun formatHex :: "nat \<Rightarrow> string" where
  "formatHex n =
     (if n < 16 then [hexDigit n] else formatHex (n div 16) @ [hexDigit (n mod 16)])"

declare formatHex.simps [simp del]

definition hexString :: "byte list \<Rightarrow> string" where
  "hexString b = concat (map (\<lambda>tn. [hexDigit (unat tn div 16), hexDigit (unat tn mod 16)]) b)"

function zeroRunEnd :: "IP \<Rightarrow> nat \<Rightarrow> nat" where
  "zeroRunEnd p j =
     (if j < 16 \<and> p ! j = 0 \<and> p ! (j + 1) = 0 then zeroRunEnd p (j + 2) else j)"
  by pat_completeness auto
termination
  by (relation "measure (\<lambda>(p, j). 16 - j)") auto

declare zeroRunEnd.simps [simp del]

function longestZeroRun :: "IP \<Rightarrow> nat \<Rightarrow> int \<Rightarrow> int \<Rightarrow> int \<times> int" where
  "longestZeroRun p i e0 e1 =
     (if i < 16 then
        (let j = zeroRunEnd p i in
         if j > i \<and> int j - int i > e1 - e0
         then longestZeroRun p (j + 2) (int i) (int j)
         else longestZeroRun p (i + 2) e0 e1)
      else (e0, e1))"
  by pat_completeness auto
termination
  by (relation "measure (\<lambda>(p, i, e0, e1). 16 - i)") auto

declare longestZeroRun.simps [simp del]

definition field16 :: "IP \<Rightarrow> nat \<Rightarrow> nat" where
  "field16 p i = unat (p ! i) * 256 + unat (p ! (i + 1))"

fun joinColon :: "string list \<Rightarrow> string" where
  "joinColon [] = []"
| "joinColon [x] = x"
| "joinColon (x # y # ys) = x @ '':'' @ joinColon (y # ys)"

definition hexFields :: "IP \<Rightarrow> nat \<Rightarrow> nat \<Rightarrow> string" where
  "hexFields p i j = joinColon (map (\<lambda>k. formatHex (field16 p (2 * k))) [i div 2..<j div 2])"

definition IP_String :: "IP \<Rightarrow> string" where
  "IP_String ip =
     (if length ip = 0 then ''<nil>''
      else (let p4 = To4 ip in
        if length p4 = 4
        then ubtoa (p4 ! 0) @ ''.'' @ ubtoa (p4 ! 1) @ ''.'' @ ubtoa (p4 ! 2) @ ''.'' @ ubtoa (p4 ! 3)
        else if length ip \<noteq> 16 then ''?'' @ hexString ip
        else (let (e0, e1) = longestZeroRun ip 0 (-1) (-1) in
              if e1 - e0 \<le> 2 then hexFields ip 0 16
              else hexFields ip 0 (nat e0) @ ''::'' @ hexFields ip (nat e1) 16)))"

subsection \<open>time and wire\<close>

text \<open>
  A \<open>time.Time\<close> is an instant: nanoseconds since the Unix epoch. \<open>time.Now()\<close> reads
  the clock, so every operation that calls it takes the instant read as an argument
  \<open>now\<close>. The zero \<open>Time\<close> is January 1 of year 1.

  \<open>wire.NetAddress\<close> is btcd's network address; \<open>wire.NewNetAddressTimestamp\<close> builds
  one, cutting the timestamp to whole seconds (\<open>time.Unix(timestamp.Unix(), 0)\<close>).
\<close>

type_synonym Time = int

definition zeroTime :: Time where
  "zeroTime = - 62135596800 * 1000000000"

record NetAddress =
  Timestamp :: Time
  Services :: "64 word"
  IP :: IP
  Port :: "16 word"

definition NewNetAddressTimestamp :: "Time \<Rightarrow> 64 word \<Rightarrow> IP \<Rightarrow> 16 word \<Rightarrow> NetAddress" where
  "NewNetAddressTimestamp timestamp services ip port =
     \<lparr>Timestamp = (timestamp div 1000000000) * 1000000000,
      Services = services, IP = ip, Port = port\<rparr>"

subsection \<open>Address\<close>

text \<open>
  Modelled from the spec: the type \<open>PeerKey\<close> and its method \<open>String\<close> are declared in
  another file of the package. The spec has a peer key as \<open>host:port\<close> text, two keys
  being equal iff their texts are: a \<open>PeerKey\<close> is a string and \<open>s.String()\<close> is \<open>s\<close>.
\<close>

type_synonym PeerKey = string

text \<open>
  The struct \<open>Address\<close>. Its \<open>netaddr\<close> is a pointer, nil in the zero value
  \<open>Address{}\<close> that \<open>Add\<close> and \<open>Blacklist\<close> hand to \<open>fromPeerKey\<close> as receiver.
  The \<open>NetAddress\<close> it points to is freshly built by \<open>NewNetAddressTimestamp\<close> or
  handed to \<open>fromNetAddress\<close> by its caller, and no method of the file writes through
  the pointer, so the record holds the pointed-to value itself.
\<close>

record Address =
  netaddr :: "NetAddress option"
  blacklisted :: bool
  lastUpdate :: Time

definition zeroAddress :: Address where
  "zeroAddress = \<lparr>netaddr = None, blacklisted = False, lastUpdate = zeroTime\<rparr>"

text \<open>\<open>String\<close> reads \<open>a.netaddr.Port\<close> first: on a nil \<open>netaddr\<close> it panics.\<close>

definition String :: "Address \<Rightarrow> panic + string" where
  "String a =
     (case netaddr a of
        None \<Rightarrow> Inl NilPointerDereference
      | Some na \<Rightarrow>
          (let portString = Itoa (uint (Port na))
           in Inr (JoinHostPort (IP_String (IP na)) portString)))"

definition asPeerKey :: "Address \<Rightarrow> panic + PeerKey" where
  "asPeerKey a = String a"

text \<open>
  \<open>fromPeerKey\<close> overwrites its receiver \<open>a\<close> and returns it, or returns the error of
  \<open>SplitHostPort\<close> or \<open>ParseUint\<close>. The result of \<open>net.ParseIP\<close> is stored as it comes.
\<close>

definition fromPeerKey :: "Address \<Rightarrow> Time \<Rightarrow> PeerKey \<Rightarrow> error + Address" where
  "fromPeerKey a now s =
     (case SplitHostPort s of
        Inl err \<Rightarrow> Inl err
      | Inr (host, portString) \<Rightarrow>
          (case ParseUint portString of
             Inl err \<Rightarrow> Inl err
           | Inr portInt \<Rightarrow>
               (let na = NewNetAddressTimestamp now 0 (ParseIP host) (of_nat portInt)
                in Inr (a\<lparr>netaddr := Some na, blacklisted := False,
                           lastUpdate := Timestamp na\<rparr>))))"

text \<open>
  \<open>asNetAddress\<close> copies the pointed-to value into the local \<open>newNA\<close>, sets the
  copy's timestamp and returns a pointer to the copy. It assigns to no field of its
  receiver and to nothing the receiver points to: the result is the new \<open>NetAddress\<close>
  together with the receiver as it is after the call.
\<close>

definition asNetAddress :: "Address \<Rightarrow> panic + (NetAddress \<times> Address)" where
  "asNetAddress a =
     (case netaddr a of
        None \<Rightarrow> Inl NilPointerDereference
      | Some na \<Rightarrow>
          (let newNA = na;
               newNA = newNA\<lparr>Timestamp := lastUpdate a\<rparr>
           in Inr (newNA, a)))"

definition fromNetAddress :: "Address \<Rightarrow> NetAddress option \<Rightarrow> panic + Address" where
  "fromNetAddress a na =
     (case na of
        None \<Rightarrow> Inl NilPointerDereference
      | Some n \<Rightarrow> Inr (a\<lparr>netaddr := Some n, blacklisted := False, lastUpdate := Timestamp n\<rparr>))"

text \<open>\<open>MarshalText\<close> returns the text and a nil error (\<open>None\<close>).\<close>

definition MarshalText :: "Address \<Rightarrow> panic + (string \<times> error option)" where
  "MarshalText a =
     (case String a of
        Inl p \<Rightarrow> Inl p
      | Inr text \<Rightarrow> Inr (text, None))"

subsection \<open>AddressBook\<close>

text \<open>
  The book is the map \<open>addrs\<close>; a Go map is finite. Every method holds the lock
  \<open>addrState\<close> around its access to the map, so each is one atomic step on the state, and
  a run of the program, however its goroutines interleave, is a sequence of such steps.
  The map's values are pointers to \<open>Address\<close>es that \<open>Add\<close> and \<open>Blacklist\<close> allocate
  and that no method hands out: a write through \<open>target\<close> is an update of the entry.
\<close>

record AddressBook =
  addrs :: "(PeerKey, Address) fmap"

definition NewAddressBook :: AddressBook where
  "NewAddressBook = \<lparr>addrs = fmempty\<rparr>"

definition Add :: "Time \<Rightarrow> PeerKey \<Rightarrow> AddressBook \<Rightarrow> AddressBook" where
  "Add now s bk =
     (case fromPeerKey zeroAddress now s of
        Inl err \<Rightarrow> bk
      | Inr newAddr \<Rightarrow> bk\<lparr>addrs := fmupd s newAddr (addrs bk)\<rparr>)"

definition Remove :: "PeerKey \<Rightarrow> AddressBook \<Rightarrow> AddressBook" where
  "Remove s bk =
     (case fmlookup (addrs bk) s of
        Some _ \<Rightarrow> bk\<lparr>addrs := fmdrop s (addrs bk)\<rparr>
      | None \<Rightarrow> bk)"

definition Blacklist :: "Time \<Rightarrow> PeerKey \<Rightarrow> AddressBook \<Rightarrow> AddressBook" where
  "Blacklist now s bk =
     (case fmlookup (addrs bk) s of
        Some target \<Rightarrow>
          bk\<lparr>addrs := fmupd s (target\<lparr>blacklisted := True, lastUpdate := now\<rparr>) (addrs bk)\<rparr>
      | None \<Rightarrow>
          (case fromPeerKey zeroAddress now s of
             Inl err \<Rightarrow> bk
           | Inr addr \<Rightarrow> bk\<lparr>addrs := fmupd s (addr\<lparr>blacklisted := True\<rparr>) (addrs bk)\<rparr>))"

definition Touch :: "Time \<Rightarrow> PeerKey \<Rightarrow> AddressBook \<Rightarrow> AddressBook" where
  "Touch now s bk =
     (case fmlookup (addrs bk) s of
        Some target \<Rightarrow> bk\<lparr>addrs := fmupd s (target\<lparr>lastUpdate := now\<rparr>) (addrs bk)\<rparr>
      | None \<Rightarrow> bk)"

definition IsKnown :: "AddressBook \<Rightarrow> PeerKey \<Rightarrow> bool" where
  "IsKnown bk s = (case fmlookup (addrs bk) s of Some _ \<Rightarrow> True | None \<Rightarrow> False)"

definition IsBlacklisted :: "AddressBook \<Rightarrow> PeerKey \<Rightarrow> bool" where
  "IsBlacklisted bk s =
     (case fmlookup (addrs bk) s of Some target \<Rightarrow> blacklisted target | None \<Rightarrow> False)"

text \<open>
  \<open>waitForAddresses\<close> blocks while \<open>addrCount < n\<close>, where \<open>addrCount\<close> is
  \<open>len(bk.addrs)\<close>: the number of entries.
\<close>

definition addrCount :: "AddressBook \<Rightarrow> nat" where
  "addrCount bk = fcard (fmdom (addrs bk))"

definition mustWait :: "AddressBook \<Rightarrow> int \<Rightarrow> bool" where
  "mustWait bk n = (int (addrCount bk) < n)"

text \<open>The states of a book: a new one, and any state after one more call.\<close>

inductive reachable :: "AddressBook \<Rightarrow> bool" where
  reachable_New: "reachable NewAddressBook"
| reachable_Add: "reachable bk \<Longrightarrow> reachable (Add now s bk)"
| reachable_Remove: "reachable bk \<Longrightarrow> reachable (Remove s bk)"
| reachable_Blacklist: "reachable bk \<Longrightarrow> reachable (Blacklist now s bk)"
| reachable_Touch: "reachable bk \<Longrightarrow> reachable (Touch now s bk)"

section \<open>Properties\<close>

subsection \<open>Evaluation and auxiliary facts\<close>

text \<open>The equations that let the simplifier run the embedding on a concrete text.\<close>

lemmas split_defs = SplitHostPort_def LastIndexByteString_def slice_def missingPort_def
  tooManyColons_def

lemmas uint_defs = ParseUint_def isDigit_def digitVal_def cutoff10_def maxVal16_def

lemmas ip_defs = ParseIP_def parseIPv4_def parseIPv4Loop.simps dtoi_def isDigit_def
  digitVal_def big_def IPv4_def v4InV6Prefix_def

lemmas render_defs = IP_String_def To4_def slice_def ubtoa_def formatDecimal.simps
  digitChar_def Itoa_def JoinHostPort_def char_of_def bit_0

lemmas address_defs = fromPeerKey_def NewNetAddressTimestamp_def zeroAddress_def
  String_def asPeerKey_def

lemma list_update_Cons_numeral:
  "(x # xs)[numeral v := y] = x # xs[numeral v - 1 := y]"
  by (simp add: numeral_eq_Suc)

lemma replicate_numeral: "replicate (numeral k) x = x # replicate (pred_numeral k) x"
  by (simp add: numeral_eq_Suc)

lemmas ip6_defs = ParseIP_def parseIPv6_def parseIPv6Loop.simps xtoi_def hexVal_def big_def
  upt_rec list_update_Cons_numeral replicate_numeral

lemmas render6_defs = IP_String_def To4_def slice_def longestZeroRun.simps zeroRunEnd.simps
  hexFields_def field16_def formatHex.simps hexDigit_def char_of_def bit_0 upt_rec

lemma IndexByteString_None: "IndexByteString s c = None \<longleftrightarrow> c \<notin> set s"
  by (induction s) auto

lemma IndexByteString_Some:
  "IndexByteString s c = Some i \<Longrightarrow> i < length s \<and> s ! i = c"
  by (induction s arbitrary: i) (auto split: if_splits)

lemma LastIndexByteString_Some:
  assumes "LastIndexByteString s c = Some i"
  shows "i < length s \<and> s ! i = c"
proof -
  from assms obtain k
    where k: "IndexByteString (rev s) c = Some k" and i: "i = length s - 1 - k"
    by (auto simp: LastIndexByteString_def)
  from IndexByteString_Some [OF k] have "k < length s" and "rev s ! k = c" by auto
  then show ?thesis using i by (simp add: rev_nth)
qed

text \<open>A port that \<open>ParseUint\<close> accepts fits sixteen bits, so the cast keeps it.\<close>

lemma parseUintLoop_bound:
  "parseUintLoop m s = Inr n \<Longrightarrow> m \<le> maxVal16 \<Longrightarrow> n \<le> maxVal16"
  by (induction s arbitrary: m) (auto simp: Let_def split: if_splits)

lemma ParseUint_bound: "ParseUint s = Inr n \<Longrightarrow> n < 65536"
  using parseUintLoop_bound [of 0 s n]
  by (auto simp: ParseUint_def maxVal16_def split: if_splits)

lemma uint_port: "n < 65536 \<Longrightarrow> uint (of_nat n :: 16 word) = int n"
  by (simp add: uint_nat unat_of_nat)

text \<open>
  Joining what \<open>SplitHostPort\<close> split gives the text back when the text has brackets
  exactly if its host holds a colon.
\<close>

lemma SplitHostPort_Join:
  assumes split: "SplitHostPort t = Inr (host, port)"
      and br: "(hd t = CHR ''['') = (IndexByteString host CHR '':'' \<noteq> None)"
  shows "JoinHostPort host port = t"
proof -
  from split obtain i where i: "LastIndexByteString t CHR '':'' = Some i"
    by (auto simp: SplitHostPort_def split: option.splits)
  from LastIndexByteString_Some [OF i] have il: "i < length t" and ti: "t ! i = CHR '':''"
    by auto
  have port: "port = drop (i + 1) t"
    using split i by (auto simp: SplitHostPort_def Let_def split: option.splits if_splits)
  show ?thesis
  proof (cases "hd t = CHR ''[''")
    case False
    then have host: "host = take i t"
      using split i by (auto simp: SplitHostPort_def Let_def split: option.splits if_splits)
    have "t = take i t @ t ! i # drop (Suc i) t"
      using il by (rule id_take_nth_drop)
    then have "t = host @ '':'' @ port"
      using host port ti by simp
    moreover have "IndexByteString host CHR '':'' = None"
      using br False by simp
    ultimately show ?thesis by (simp add: JoinHostPort_def)
  next
    case True
    then obtain e where e: "IndexByteString t CHR '']'' = Some e"
      using split i by (auto simp: SplitHostPort_def Let_def split: option.splits if_splits)
    have ei: "e + 1 = i"
      using split i e True
      by (auto simp: SplitHostPort_def Let_def split: option.splits if_splits)
    have host: "host = slice t 1 e"
      using split i e True
      by (auto simp: SplitHostPort_def Let_def split: option.splits if_splits)
    from IndexByteString_Some [OF e] have el: "e < length t" and te: "t ! e = CHR '']''"
      by auto
    have t0: "t \<noteq> []" using il by auto
    have e0: "0 < e"
    proof (rule ccontr)
      assume "\<not> 0 < e"
      then have "t ! 0 = CHR '']''" using te by simp
      then show False using True t0 by (simp add: hd_conv_nth)
    qed
    have "t = take e t @ t ! e # drop (Suc e) t"
      using el by (rule id_take_nth_drop)
    moreover have "drop (Suc e) t = t ! i # drop (Suc i) t"
      using il ei by (metis Cons_nth_drop_Suc Suc_eq_plus1)
    moreover have "take e t = hd t # slice t 1 e"
      using e0 t0 by (cases t) (auto simp: slice_def take_Suc drop_Suc gr0_conv_Suc)
    ultimately have "t = ''['' @ host @ '']:'' @ port"
      using host port te ti True by simp
    moreover have "IndexByteString host CHR '':'' \<noteq> None"
      using br True by simp
    ultimately show ?thesis by (simp add: JoinHostPort_def)
  qed
qed

text \<open>What \<open>fromPeerKey\<close> returns, and that the clock has no say in whether it fails.\<close>

lemma fromPeerKey_Inr:
  "fromPeerKey a now s = Inr r \<longleftrightarrow>
     (\<exists>host portString portInt. SplitHostPort s = Inr (host, portString) \<and>
        ParseUint portString = Inr portInt \<and>
        r = a\<lparr>netaddr := Some (NewNetAddressTimestamp now 0 (ParseIP host) (of_nat portInt)),
              blacklisted := False,
              lastUpdate := Timestamp (NewNetAddressTimestamp now 0 (ParseIP host) (of_nat portInt))\<rparr>)"
  by (auto simp: fromPeerKey_def Let_def split: sum.splits prod.splits)

lemma fromPeerKey_isl_time: "isl (fromPeerKey a now s) = isl (fromPeerKey a' now' s)"
  by (simp add: fromPeerKey_def Let_def split: sum.splits prod.splits)

text \<open>Two texts to run the embedding on: a well-formed key and a malformed one.\<close>

lemma fromPeerKey_example:
  "fromPeerKey zeroAddress now ''10.0.0.1:8233''
     = Inr \<lparr>netaddr = Some \<lparr>Timestamp = (now div 1000000000) * 1000000000, Services = 0,
                IP = [0, 0, 0, 0, 0, 0, 0, 0, 0, 0, 0xff, 0xff, 10, 0, 0, 1], Port = 8233\<rparr>,
            blacklisted = False, lastUpdate = (now div 1000000000) * 1000000000\<rparr>"
  by (simp add: address_defs split_defs uint_defs ip_defs)

lemma fromPeerKey_malformed:
  "fromPeerKey zeroAddress now ''not-an-address'' = Inl (AddrError missingPort)"
  by (simp add: address_defs split_defs)

text \<open>
  Decimal texts: what \<open>formatDecimal\<close> writes is read back by \<open>ParseUint\<close> and by
  \<open>dtoi\<close>, and has no leading zero; with that, \<open>ParseIP\<close> reads back every dotted
  quad that \<open>IP.String\<close> writes.
\<close>

lemma of_char_digitChar: "d < 10 \<Longrightarrow> (of_char (digitChar d) :: nat) = 48 + d"
  by (simp add: digitChar_def)

lemma isDigit_digitChar: "d < 10 \<Longrightarrow> isDigit (digitChar d)"
  by (simp add: isDigit_def of_char_digitChar)

lemma digitVal_digitChar: "d < 10 \<Longrightarrow> digitVal (digitChar d) = d"
  by (simp add: digitVal_def of_char_digitChar)

lemma isDigit_not_punct:
  "isDigit c \<Longrightarrow> c \<noteq> CHR ''.'' \<and> c \<noteq> CHR '':'' \<and> c \<noteq> CHR ''['' \<and> c \<noteq> CHR '']''"
  by (auto simp: isDigit_def)

lemma digitChar_zero: "d < 10 \<Longrightarrow> digitChar d = CHR ''0'' \<Longrightarrow> d = 0"
  using of_char_digitChar [of d] by (cases "d = 0") auto

lemma formatDecimal_digits: "c \<in> set (formatDecimal n) \<Longrightarrow> isDigit c"
proof (induction n rule: formatDecimal.induct)
  case (1 n)
  then show ?case
    by (subst (asm) (2) formatDecimal.simps) (auto simp: isDigit_digitChar split: if_splits)
qed

lemma formatDecimal_nonempty: "formatDecimal n \<noteq> []"
  by (subst formatDecimal.simps) simp

lemma decimalValue_formatDecimal:
  "decimalValue m (formatDecimal n) = m * 10 ^ length (formatDecimal n) + n"
proof (induction n arbitrary: m rule: formatDecimal.induct)
  case (1 n)
  show ?case
  proof (cases "n < 10")
    case True
    then show ?thesis
      by (subst (1 2) formatDecimal.simps) (simp add: decimalValue_def digitVal_digitChar)
  next
    case False
    have "decimalValue m (formatDecimal n)
        = decimalValue m (formatDecimal (n div 10)) * 10 + n mod 10"
      using False
      by (subst formatDecimal.simps) (simp add: decimalValue_def digitVal_digitChar)
    also have "\<dots> = (m * 10 ^ length (formatDecimal (n div 10)) + n div 10) * 10 + n mod 10"
      using 1 [OF False] by simp
    also have "\<dots> = m * 10 ^ length (formatDecimal n) + n"
      using False by (subst (2) formatDecimal.simps) (simp add: algebra_simps)
    finally show ?thesis .
  qed
qed

lemma decimalValue_ge: "m \<le> decimalValue m ds"
proof (induction ds arbitrary: m)
  case Nil
  then show ?case by (simp add: decimalValue_def)
next
  case (Cons c cs)
  have "m \<le> m * 10 + digitVal c" by simp
  also have "\<dots> \<le> decimalValue (m * 10 + digitVal c) cs" by (rule Cons.IH)
  finally show ?case by (simp add: decimalValue_def)
qed

lemma parseUintLoop_digits:
  "\<forall>c \<in> set ds. isDigit c \<Longrightarrow> decimalValue m ds \<le> maxVal16 \<Longrightarrow>
     parseUintLoop m ds = Inr (decimalValue m ds)"
proof (induction ds arbitrary: m)
  case Nil
  then show ?case by (simp add: decimalValue_def)
next
  case (Cons c cs)
  have v: "decimalValue m (c # cs) = decimalValue (m * 10 + digitVal c) cs"
    by (simp add: decimalValue_def)
  have "m * 10 + digitVal c \<le> decimalValue (m * 10 + digitVal c) cs"
    by (rule decimalValue_ge)
  with Cons.prems v have small: "m * 10 + digitVal c \<le> maxVal16" by simp
  then have "m < cutoff10" by (simp add: maxVal16_def cutoff10_def)
  with Cons small v show ?case by (simp add: Let_def)
qed

lemma ParseUint_formatDecimal: "n < 65536 \<Longrightarrow> ParseUint (formatDecimal n) = Inr n"
  using parseUintLoop_digits [of "formatDecimal n" 0] decimalValue_formatDecimal [of 0 n]
  by (simp add: ParseUint_def formatDecimal_nonempty formatDecimal_digits maxVal16_def)

lemma dtoiLoop_digits:
  "\<forall>c \<in> set ds. isDigit c \<Longrightarrow> decimalValue m ds < big \<Longrightarrow>
   rest = [] \<or> \<not> isDigit (hd rest) \<Longrightarrow> 0 < i + length ds \<Longrightarrow>
     dtoiLoop m i (ds @ rest) = Some (decimalValue m ds, i + length ds)"
proof (induction ds arbitrary: m i)
  case Nil
  then show ?case by (cases rest) (auto simp: decimalValue_def)
next
  case (Cons c cs)
  have v: "decimalValue m (c # cs) = decimalValue (m * 10 + digitVal c) cs"
    by (simp add: decimalValue_def)
  have "m * 10 + digitVal c \<le> decimalValue (m * 10 + digitVal c) cs"
    by (rule decimalValue_ge)
  with Cons.prems v have small: "m * 10 + digitVal c < big" by simp
  with Cons v show ?case by (simp add: Let_def)
qed

lemma dtoi_ubtoa:
  "rest = [] \<or> \<not> isDigit (hd rest) \<Longrightarrow>
     dtoi (ubtoa v @ rest) = Some (unat v, length (ubtoa v))"
proof -
  assume r: "rest = [] \<or> \<not> isDigit (hd rest)"
  have "unat v < 256" using unsigned_less [of v, where ?'a = nat] by simp
  then have "decimalValue 0 (formatDecimal (unat v)) < big"
    by (simp add: decimalValue_formatDecimal big_def)
  with r show ?thesis
    using dtoiLoop_digits [of "formatDecimal (unat v)" 0 rest 0]
    by (simp add: dtoi_def ubtoa_def formatDecimal_digits formatDecimal_nonempty
          decimalValue_formatDecimal)
qed

lemma formatDecimal_no_leading_zero:
  "1 < length (formatDecimal n) \<Longrightarrow> hd (formatDecimal n) \<noteq> CHR ''0''"
proof (induction n rule: formatDecimal.induct)
  case (1 n)
  show ?case
  proof (cases "n < 10")
    case True
    with 1(2) show ?thesis by (subst (asm) formatDecimal.simps) simp
  next
    case False
    have hd_eq: "hd (formatDecimal n) = hd (formatDecimal (n div 10))"
      using False by (subst formatDecimal.simps) (simp add: formatDecimal_nonempty)
    show ?thesis
    proof (cases "n div 10 < 10")
      case True
      have "0 < n div 10" using False by simp
      then have "digitChar (n div 10) \<noteq> CHR ''0''"
        using digitChar_zero [OF True] by auto
      with True hd_eq show ?thesis by (subst (asm) (2) formatDecimal.simps) simp
    next
      case d: False
      then have "1 < length (formatDecimal (n div 10))"
        by (subst formatDecimal.simps) (simp add: formatDecimal_nonempty Suc_lessI)
      with 1(1) [OF False] hd_eq show ?thesis by simp
    qed
  qed
qed


lemma ubtoa_digits: "c \<in> set (ubtoa v) \<Longrightarrow> isDigit c"
  by (simp add: ubtoa_def formatDecimal_digits)

lemma ubtoa_nonempty: "ubtoa v \<noteq> []"
  by (simp add: ubtoa_def formatDecimal_nonempty)

lemma ubtoa_no_leading_zero: "1 < length (ubtoa v) \<Longrightarrow> hd (ubtoa v) \<noteq> CHR ''0''"
  by (simp add: ubtoa_def formatDecimal_no_leading_zero)

lemma hd_ubtoa_not_dot: "hd (ubtoa v @ rest) \<noteq> CHR ''.''"
  using ubtoa_nonempty [of v] ubtoa_digits [of "hd (ubtoa v)" v] isDigit_not_punct
  by (cases "ubtoa v") auto

text \<open>One round of the loop of \<open>parseIPv4\<close> on a field that \<open>ubtoa\<close> wrote.\<close>

lemma parseIPv4Loop_first:
  assumes "rest = [] \<or> hd rest = CHR ''.''"
  shows "parseIPv4Loop 0 (ubtoa v @ rest) p = parseIPv4Loop (Suc 0) rest (p[0 := v])"
proof -
  have r: "rest = [] \<or> \<not> isDigit (hd rest)"
    using assms by (auto simp: isDigit_def)
  have small: "\<not> 255 < unat v"
    using unsigned_less [of v, where ?'a = nat] by simp
  show ?thesis
    using dtoi_ubtoa [OF r, of v] ubtoa_nonempty [of v] ubtoa_no_leading_zero [of v] small
    by (subst parseIPv4Loop.simps) (auto simp: Let_def)
qed

lemma parseIPv4Loop_next:
  assumes "0 < i" and "i < 4" and "rest = [] \<or> hd rest = CHR ''.''"
  shows "parseIPv4Loop i (CHR ''.'' # ubtoa v @ rest) p = parseIPv4Loop (Suc i) rest (p[i := v])"
proof -
  have r: "rest = [] \<or> \<not> isDigit (hd rest)"
    using assms(3) by (auto simp: isDigit_def)
  have small: "\<not> 255 < unat v"
    using unsigned_less [of v, where ?'a = nat] by simp
  show ?thesis
    using assms(1,2) dtoi_ubtoa [OF r, of v] ubtoa_nonempty [of v]
      ubtoa_no_leading_zero [of v] small
    by (subst parseIPv4Loop.simps) (auto simp: Let_def)
qed

lemma parseIPv4_dotted:
  "parseIPv4 (ubtoa a @ ''.'' @ ubtoa b @ ''.'' @ ubtoa c @ ''.'' @ ubtoa d) = IPv4 a b c d"
proof -
  have "parseIPv4 (ubtoa a @ ''.'' @ ubtoa b @ ''.'' @ ubtoa c @ ''.'' @ ubtoa d)
      = parseIPv4Loop 0 (ubtoa a @ (CHR ''.'' # ubtoa b @ (CHR ''.'' # ubtoa c @
          (CHR ''.'' # ubtoa d @ [])))) [0, 0, 0, 0]"
    by (simp add: parseIPv4_def)
  also have "\<dots> = parseIPv4Loop 4 [] [a, b, c, d]"
    using parseIPv4Loop_next [of 3 "[]" d "[a, b, c, 0]"]
    by (simp add: parseIPv4Loop_first parseIPv4Loop_next eval_nat_numeral)
  also have "\<dots> = IPv4 a b c d"
    by (subst parseIPv4Loop.simps) simp
  finally show ?thesis .
qed

lemma ParseIPscan_digits:
  "\<forall>c \<in> set ds. isDigit c \<Longrightarrow> ParseIPscan s (ds @ CHR ''.'' # rest) = parseIPv4 s"
  by (induction ds) (auto dest: isDigit_not_punct)

lemma ParseIP_dotted:
  "ParseIP (ubtoa a @ ''.'' @ ubtoa b @ ''.'' @ ubtoa c @ ''.'' @ ubtoa d) = IPv4 a b c d"
proof -
  have "ParseIP (ubtoa a @ ''.'' @ ubtoa b @ ''.'' @ ubtoa c @ ''.'' @ ubtoa d)
      = parseIPv4 (ubtoa a @ ''.'' @ ubtoa b @ ''.'' @ ubtoa c @ ''.'' @ ubtoa d)"
    using ParseIPscan_digits [of "ubtoa a" _ "ubtoa b @ ''.'' @ ubtoa c @ ''.'' @ ubtoa d"]
    by (simp add: ParseIP_def ubtoa_digits)
  with parseIPv4_dotted [of a b c d] show ?thesis by simp
qed

lemma IP_String_IPv4:
  "IP_String (IPv4 a b c d) = ubtoa a @ ''.'' @ ubtoa b @ ''.'' @ ubtoa c @ ''.'' @ ubtoa d"
  by (simp add: IP_String_def To4_def IPv4_def v4InV6Prefix_def slice_def)

lemma IndexByteString_append_first:
  "c \<notin> set xs \<Longrightarrow> IndexByteString (xs @ c # ys) c = Some (length xs)"
  by (induction xs) auto

lemma SplitHostPort_plain:
  assumes h: "\<forall>c \<in> set host. c \<noteq> CHR '':'' \<and> c \<noteq> CHR ''['' \<and> c \<noteq> CHR '']''"
      and p: "\<forall>c \<in> set port. c \<noteq> CHR '':'' \<and> c \<noteq> CHR ''['' \<and> c \<noteq> CHR '']''"
  shows "SplitHostPort (host @ '':'' @ port) = Inr (host, port)"
proof -
  let ?t = "host @ '':'' @ port"
  have "IndexByteString (rev ?t) CHR '':'' = Some (length port)"
    using p IndexByteString_append_first [of "CHR '':''" "rev port" "rev host"] by auto
  then have i: "LastIndexByteString ?t CHR '':'' = Some (length host)"
    by (simp add: LastIndexByteString_def)
  have b: "hd ?t \<noteq> CHR ''[''"
    using h by (cases host) auto
  have n: "IndexByteString host CHR '':'' = None" "IndexByteString ?t CHR ''['' = None"
      "IndexByteString ?t CHR '']'' = None"
    using h p by (auto simp: IndexByteString_None)
  show ?thesis
    using i b n by (simp add: SplitHostPort_def)
qed

text \<open>Every key of a reachable book is a text that \<open>fromPeerKey\<close> accepts.\<close>

lemma reachable_key_parses:
  "reachable bk \<Longrightarrow> fmlookup (addrs bk) k = Some a \<Longrightarrow>
     \<not> isl (fromPeerKey zeroAddress 0 k)"
proof (induction arbitrary: k a rule: reachable.induct)
  case reachable_New
  then show ?case by (simp add: NewAddressBook_def)
next
  case (reachable_Add bk now s)
  then show ?case
    using fromPeerKey_isl_time [of zeroAddress now s zeroAddress 0]
    by (auto simp: Add_def split: sum.splits if_splits)
next
  case (reachable_Remove bk s)
  then show ?case
    by (auto simp: Remove_def split: option.splits if_splits)
next
  case (reachable_Blacklist bk now s)
  then show ?case
    using fromPeerKey_isl_time [of zeroAddress now s zeroAddress 0]
    by (auto simp: Blacklist_def split: option.splits sum.splits if_splits)
next
  case (reachable_Touch bk now s)
  then show ?case
    by (auto simp: Touch_def split: option.splits if_splits)
qed

subsection \<open>From text to record and back (C1)\<close>

text \<open>
  C1, as stated: for every text that \<open>fromPeerKey\<close> accepts, rendering the parsed record
  gives the text again. It does not: a host that is not an IP address renders as
  \<open><nil>\<close>, a port written with a leading zero loses it, an IPv4 host in brackets loses
  them, and an IPv6 host is rendered in its shortest form.
\<close>

theorem roundtrip_fails_on_other_spellings:
  "map_sum id asPeerKey (fromPeerKey zeroAddress 5000000000 ''localhost:8233'')
     = Inr (Inr ''<nil>:8233'')
   \<and> map_sum id asPeerKey (fromPeerKey zeroAddress 5000000000 ''10.0.0.1:08233'')
     = Inr (Inr ''10.0.0.1:8233'')
   \<and> map_sum id asPeerKey (fromPeerKey zeroAddress 5000000000 ''[10.0.0.1]:8233'')
     = Inr (Inr ''10.0.0.1:8233'')
   \<and> map_sum id asPeerKey (fromPeerKey zeroAddress 5000000000 ''[0:0:0:0:0:0:0:1]:8233'')
     = Inr (Inr ''[::1]:8233'')"
  by (simp add: address_defs split_defs uint_defs ip_defs render_defs ip6_defs render6_defs)

text \<open>
  C1, amended: rendering the parsed record gives the text again for every text in
  canonical form, that is: \<open>SplitHostPort\<close> splits it, its port is the decimal text of
  the number \<open>ParseUint\<close> reads from it, its host is the text \<open>IP.String\<close> gives for
  what \<open>ParseIP\<close> reads from it, and it has brackets exactly if the host holds a colon.
\<close>

theorem fromPeerKey_asPeerKey_roundtrip:
  assumes "SplitHostPort t = Inr (host, port)"
      and "ParseUint port = Inr n"
      and "IP_String (ParseIP host) = host"
      and "Itoa (int n) = port"
      and "(hd t = CHR ''['') = (IndexByteString host CHR '':'' \<noteq> None)"
  shows "map_sum id asPeerKey (fromPeerKey zeroAddress now t) = Inr (Inr t)"
proof -
  have "uint (of_nat n :: 16 word) = int n"
    using ParseUint_bound [OF assms(2)] by (rule uint_port)
  moreover have "JoinHostPort host port = t"
    using assms(1) assms(5) by (rule SplitHostPort_Join)
  ultimately show ?thesis
    using assms(1-4)
    by (simp add: fromPeerKey_def asPeerKey_def String_def NewNetAddressTimestamp_def)
qed

theorem fromPeerKey_asPeerKey_roundtrip_witness:
  "SplitHostPort ''10.0.0.1:8233'' = Inr (''10.0.0.1'', ''8233'')
   \<and> ParseUint ''8233'' = Inr 8233
   \<and> IP_String (ParseIP ''10.0.0.1'') = ''10.0.0.1''
   \<and> Itoa 8233 = ''8233''
   \<and> hd ''10.0.0.1:8233'' \<noteq> CHR ''[''
   \<and> IndexByteString ''10.0.0.1'' CHR '':'' = None
   \<and> map_sum id asPeerKey (fromPeerKey zeroAddress 5000000000 ''10.0.0.1:8233'')
       = Inr (Inr ''10.0.0.1:8233'')
   \<and> SplitHostPort ''[2001:db8::1]:8233'' = Inr (''2001:db8::1'', ''8233'')
   \<and> IP_String (ParseIP ''2001:db8::1'') = ''2001:db8::1''
   \<and> hd ''[2001:db8::1]:8233'' = CHR ''[''
   \<and> IndexByteString ''2001:db8::1'' CHR '':'' = Some 4
   \<and> map_sum id asPeerKey (fromPeerKey zeroAddress 5000000000 ''[2001:db8::1]:8233'')
       = Inr (Inr ''[2001:db8::1]:8233'')"
proof -
  have s4: "SplitHostPort ''10.0.0.1:8233'' = Inr (''10.0.0.1'', ''8233'')"
    by (simp add: split_defs)
  have s6: "SplitHostPort ''[2001:db8::1]:8233'' = Inr (''2001:db8::1'', ''8233'')"
    by (simp add: split_defs)
  have p: "ParseUint ''8233'' = Inr 8233"
    by (simp add: uint_defs)
  have i4: "IP_String (ParseIP ''10.0.0.1'') = ''10.0.0.1''"
    by (simp add: ip_defs render_defs)
  have i6: "IP_String (ParseIP ''2001:db8::1'') = ''2001:db8::1''"
    by (simp add: ip6_defs render6_defs)
  have d: "Itoa (int 8233) = ''8233''"
    by (simp add: render_defs)
  have b4: "(hd ''10.0.0.1:8233'' = CHR ''['') = (IndexByteString ''10.0.0.1'' CHR '':'' \<noteq> None)"
    by simp
  have b6: "(hd ''[2001:db8::1]:8233'' = CHR ''['')
      = (IndexByteString ''2001:db8::1'' CHR '':'' \<noteq> None)"
    by simp
  from fromPeerKey_asPeerKey_roundtrip [OF s4 p i4 d b4, of 5000000000]
    fromPeerKey_asPeerKey_roundtrip [OF s6 p i6 d b6, of 5000000000]
    s4 s6 p i4 i6 d
  show ?thesis by simp
qed

text \<open>
  Canonical texts are not rare: every IPv4 endpoint written the usual way, four decimal
  bytes and a decimal port, is one, whatever the bytes and the port.
\<close>

lemma dotted_quad_roundtrip:
  "map_sum id asPeerKey (fromPeerKey zeroAddress now
      (ubtoa a @ ''.'' @ ubtoa b @ ''.'' @ ubtoa c @ ''.'' @ ubtoa d @ '':'' @ Itoa (uint (p :: 16 word))))
   = Inr (Inr (ubtoa a @ ''.'' @ ubtoa b @ ''.'' @ ubtoa c @ ''.'' @ ubtoa d @ '':'' @ Itoa (uint p)))"
proof -
  let ?host = "ubtoa a @ ''.'' @ ubtoa b @ ''.'' @ ubtoa c @ ''.'' @ ubtoa d"
  let ?port = "formatDecimal (unat p)"
  have port: "Itoa (uint p) = ?port"
    by (simp add: Itoa_def)
  have hchars: "\<forall>c \<in> set ?host. c \<noteq> CHR '':'' \<and> c \<noteq> CHR ''['' \<and> c \<noteq> CHR '']''"
    using ubtoa_digits isDigit_not_punct by auto
  have pchars: "\<forall>c \<in> set ?port. c \<noteq> CHR '':'' \<and> c \<noteq> CHR ''['' \<and> c \<noteq> CHR '']''"
    using formatDecimal_digits isDigit_not_punct by blast
  have split: "SplitHostPort (?host @ '':'' @ ?port) = Inr (?host, ?port)"
    using hchars pchars by (rule SplitHostPort_plain)
  have small: "unat p < 65536"
    using unsigned_less [of p, where ?'a = nat] by simp
  have num: "ParseUint ?port = Inr (unat p)"
    using small by (rule ParseUint_formatDecimal)
  have nocolon: "IndexByteString ?host CHR '':'' = None"
    using hchars by (auto simp: IndexByteString_None)
  have "JoinHostPort ?host ?port = ?host @ '':'' @ ?port"
    using nocolon by (simp add: JoinHostPort_def)
  then show ?thesis
    using split num port ParseIP_dotted [of a b c d] IP_String_IPv4 [of a b c d]
    by (simp add: fromPeerKey_def asPeerKey_def String_def NewNetAddressTimestamp_def)
qed

subsection \<open>The entry count (C2)\<close>

text \<open>
  C2, as stated: none of \<open>Remove\<close>, \<open>Blacklist\<close> and \<open>Touch\<close> can raise the number of
  entries. \<open>Blacklist\<close> can: on a key that is absent and parses, its second branch
  ("Create a new Address just to be blacklisted") stores a new entry. On the new book,
  blacklisting \<open>10.0.0.1:8233\<close> takes the count from 0 to 1, which ends the wait of
  \<open>waitForAddresses\<close> for one address.
\<close>

theorem Blacklist_raises_count:
  "addrCount NewAddressBook = 0
   \<and> addrCount (Blacklist 5000000000 ''10.0.0.1:8233'' NewAddressBook) = 1
   \<and> \<not> addrCount (Blacklist 5000000000 ''10.0.0.1:8233'' NewAddressBook)
         \<le> addrCount NewAddressBook
   \<and> mustWait NewAddressBook 1
   \<and> \<not> mustWait (Blacklist 5000000000 ''10.0.0.1:8233'' NewAddressBook) 1"
  by (simp add: mustWait_def addrCount_def NewAddressBook_def Blacklist_def fromPeerKey_example
        fcard_finsert_if)

text \<open>
  C2, amended: \<open>Remove\<close> lowers the count by one on a known key and keeps it otherwise,
  so never raises it; \<open>Touch\<close> keeps it; \<open>Blacklist\<close> keeps it on a known key and on a
  text that does not parse, and raises it by exactly one on an unknown key that parses.
\<close>

theorem count_after_Remove_Touch_Blacklist:
  "addrCount (Remove s bk) = (if IsKnown bk s then addrCount bk - 1 else addrCount bk)
   \<and> addrCount (Remove s bk) \<le> addrCount bk
   \<and> addrCount (Touch now s bk) = addrCount bk
   \<and> addrCount (Blacklist now s bk)
       = (if IsKnown bk s \<or> isl (fromPeerKey zeroAddress now s)
          then addrCount bk else addrCount bk + 1)"
  by (auto simp: addrCount_def Remove_def Touch_def Blacklist_def IsKnown_def
        fcard_finsert_if fcard_fminus_fsingleton_if fmlookup_dom_iff fmdom_notI
      split: option.splits sum.splits)

theorem count_after_Remove_Touch_Blacklist_witness:
  "addrCount (Add 5000000000 ''10.0.0.1:8233'' NewAddressBook) = 1
   \<and> addrCount (Remove ''10.0.0.1:8233'' (Add 5000000000 ''10.0.0.1:8233'' NewAddressBook)) = 0
   \<and> addrCount (Touch 7000000000 ''10.0.0.1:8233''
        (Add 5000000000 ''10.0.0.1:8233'' NewAddressBook)) = 1
   \<and> addrCount (Blacklist 7000000000 ''10.0.0.1:8233''
        (Add 5000000000 ''10.0.0.1:8233'' NewAddressBook)) = 1
   \<and> addrCount (Blacklist 7000000000 ''not-an-address'' NewAddressBook) = 0
   \<and> addrCount (Blacklist 7000000000 ''10.0.0.1:8233'' NewAddressBook) = 1"
proof -
  let ?k = "''10.0.0.1:8233''"
  let ?bk = "Add 5000000000 ?k NewAddressBook"
  have one: "addrCount ?bk = 1"
    by (simp add: addrCount_def Add_def NewAddressBook_def fromPeerKey_example fcard_finsert_if)
  have zero: "addrCount NewAddressBook = 0"
    by (simp add: addrCount_def NewAddressBook_def)
  have known: "IsKnown ?bk ?k"
    by (simp add: IsKnown_def Add_def NewAddressBook_def fromPeerKey_example)
  have unknown: "\<not> IsKnown NewAddressBook ?k" "\<not> IsKnown NewAddressBook ''not-an-address''"
    by (simp_all add: IsKnown_def NewAddressBook_def)
  have bad: "isl (fromPeerKey zeroAddress 7000000000 ''not-an-address'')"
    by (simp add: fromPeerKey_malformed)
  have good: "\<not> isl (fromPeerKey zeroAddress 7000000000 ?k)"
    by (simp add: fromPeerKey_example)
  show ?thesis
    using count_after_Remove_Touch_Blacklist [of ?k ?bk 7000000000]
      count_after_Remove_Touch_Blacklist [of "''not-an-address''" NewAddressBook 7000000000]
      count_after_Remove_Touch_Blacklist [of ?k NewAddressBook 7000000000]
      one zero known unknown bad good
    by simp
qed

subsection \<open>One record per key (C3)\<close>

text \<open>
  C3, as stated: in no reachable book do two records render to the same \<open>host:port\<close>
  text. The map is keyed by the text the caller gave (\<open>bk.addrs[s] = newAddr\<close>), not by
  the rendering of the record, so two spellings of one endpoint give two entries whose
  records render alike.
\<close>

theorem two_records_render_alike:
  "reachable (Add 6000000000 ''10.0.0.1:08233'' (Add 5000000000 ''10.0.0.1:8233'' NewAddressBook))
   \<and> map_option asPeerKey (fmlookup (addrs
        (Add 6000000000 ''10.0.0.1:08233'' (Add 5000000000 ''10.0.0.1:8233'' NewAddressBook)))
        ''10.0.0.1:8233'') = Some (Inr ''10.0.0.1:8233'')
   \<and> map_option asPeerKey (fmlookup (addrs
        (Add 6000000000 ''10.0.0.1:08233'' (Add 5000000000 ''10.0.0.1:8233'' NewAddressBook)))
        ''10.0.0.1:08233'') = Some (Inr ''10.0.0.1:8233'')
   \<and> ''10.0.0.1:8233'' \<noteq> ''10.0.0.1:08233''
   \<and> addrCount (Add 6000000000 ''10.0.0.1:08233''
        (Add 5000000000 ''10.0.0.1:8233'' NewAddressBook)) = 2"
proof -
  have r: "reachable (Add 6000000000 ''10.0.0.1:08233'' (Add 5000000000 ''10.0.0.1:8233'' NewAddressBook))"
    by (intro reachable.intros)
  have z: "fromPeerKey zeroAddress 6000000000 ''10.0.0.1:08233''
     = Inr \<lparr>netaddr = Some \<lparr>Timestamp = 6000000000, Services = 0,
                IP = [0, 0, 0, 0, 0, 0, 0, 0, 0, 0, 0xff, 0xff, 10, 0, 0, 1], Port = 8233\<rparr>,
            blacklisted = False, lastUpdate = 6000000000\<rparr>"
    by (simp add: address_defs split_defs uint_defs ip_defs)
  show ?thesis
    using r
    by (simp add: Add_def NewAddressBook_def fromPeerKey_example z addrCount_def fcard_finsert_if
          asPeerKey_def String_def render_defs)
qed

text \<open>
  The invariant of the book: whatever calls led to it, each of its records was parsed
  from the key it is stored under, and \<open>Blacklist\<close> and \<open>Touch\<close>
  have changed its flag and time only.
\<close>

lemma reachable_endpoint:
  "reachable bk \<Longrightarrow> fmlookup (addrs bk) k = Some a \<Longrightarrow>
     \<exists>host portString portInt na.
        SplitHostPort k = Inr (host, portString) \<and> ParseUint portString = Inr portInt \<and>
        netaddr a = Some na \<and> IP na = ParseIP host \<and> Port na = of_nat portInt \<and>
        Services na = 0"
proof (induction arbitrary: k a rule: reachable.induct)
  case reachable_New
  then show ?case by (simp add: NewAddressBook_def)
next
  case (reachable_Add bk now s)
  show ?case
  proof (cases "fromPeerKey zeroAddress now s")
    case (Inl e)
    with reachable_Add show ?thesis by (simp add: Add_def)
  next
    case (Inr r)
    show ?thesis
    proof (cases "k = s")
      case True
      with Inr reachable_Add.prems have "a = r" by (simp add: Add_def)
      with Inr True show ?thesis
        by (auto simp: fromPeerKey_Inr NewNetAddressTimestamp_def)
    next
      case False
      with Inr reachable_Add show ?thesis by (simp add: Add_def)
    qed
  qed
next
  case (reachable_Remove bk s)
  then show ?case
    by (auto simp: Remove_def split: option.splits if_splits)
next
  case (reachable_Blacklist bk now s)
  show ?case
  proof (cases "k = s")
    case False
    with reachable_Blacklist show ?thesis
      by (auto simp: Blacklist_def split: option.splits sum.splits)
  next
    case True
    show ?thesis
    proof (cases "fmlookup (addrs bk) s")
      case (Some target)
      with True reachable_Blacklist.prems
      have "a = target\<lparr>blacklisted := True, lastUpdate := now\<rparr>"
        by (simp add: Blacklist_def)
      with reachable_Blacklist.IH [OF Some] True show ?thesis by simp
    next
      case None
      show ?thesis
      proof (cases "fromPeerKey zeroAddress now s")
        case (Inl e)
        with None True reachable_Blacklist.prems show ?thesis by (simp add: Blacklist_def)
      next
        case (Inr r)
        with None True reachable_Blacklist.prems have "a = r\<lparr>blacklisted := True\<rparr>"
          by (simp add: Blacklist_def)
        with Inr True show ?thesis
          by (auto simp: fromPeerKey_Inr NewNetAddressTimestamp_def)
      qed
    qed
  qed
next
  case (reachable_Touch bk now s)
  show ?case
  proof (cases "k = s")
    case False
    with reachable_Touch show ?thesis
      by (auto simp: Touch_def split: option.splits)
  next
    case True
    show ?thesis
    proof (cases "fmlookup (addrs bk) s")
      case (Some target)
      with True reachable_Touch.prems have "a = target\<lparr>lastUpdate := now\<rparr>"
        by (simp add: Touch_def)
      with reachable_Touch.IH [OF Some] True show ?thesis by simp
    next
      case None
      with True reachable_Touch.prems show ?thesis by (simp add: Touch_def)
    qed
  qed
qed

text \<open>
  C3, amended: a book holds at most one record per key text as the caller spelled it
  (\<open>addrs\<close> is a map), and in every reachable book the record under a key text holds the
  result of \<open>ParseIP\<close> on the text's host and the port \<open>ParseUint\<close> read, so that it
  renders to the canonical form of its key.
\<close>

theorem record_is_parse_of_key:
  assumes "reachable bk" and "fmlookup (addrs bk) k = Some a"
  shows "\<exists>host portString portInt na.
           SplitHostPort k = Inr (host, portString) \<and> ParseUint portString = Inr portInt \<and>
           netaddr a = Some na \<and> IP na = ParseIP host \<and> Port na = of_nat portInt \<and>
           asPeerKey a = Inr (JoinHostPort (IP_String (ParseIP host)) (Itoa (int portInt)))"
proof -
  from reachable_endpoint [OF assms] obtain host portString portInt na where
    h: "SplitHostPort k = Inr (host, portString)" "ParseUint portString = Inr portInt"
       "netaddr a = Some na" "IP na = ParseIP host" "Port na = of_nat portInt"
    by blast
  have "uint (of_nat portInt :: 16 word) = int portInt"
    using ParseUint_bound [OF h(2)] by (rule uint_port)
  with h have "asPeerKey a = Inr (JoinHostPort (IP_String (ParseIP host)) (Itoa (int portInt)))"
    by (simp add: asPeerKey_def String_def)
  with h show ?thesis by blast
qed

theorem record_is_parse_of_key_witness:
  "reachable (Add 5000000000 ''10.0.0.1:08233'' NewAddressBook)
   \<and> fmlookup (addrs (Add 5000000000 ''10.0.0.1:08233'' NewAddressBook)) ''10.0.0.1:08233''
       = Some \<lparr>netaddr = Some \<lparr>Timestamp = 5000000000, Services = 0,
                  IP = [0, 0, 0, 0, 0, 0, 0, 0, 0, 0, 0xff, 0xff, 10, 0, 0, 1], Port = 8233\<rparr>,
               blacklisted = False, lastUpdate = 5000000000\<rparr>
   \<and> SplitHostPort ''10.0.0.1:08233'' = Inr (''10.0.0.1'', ''08233'')
   \<and> ParseUint ''08233'' = Inr 8233
   \<and> asPeerKey \<lparr>netaddr = Some \<lparr>Timestamp = 5000000000, Services = 0,
                  IP = [0, 0, 0, 0, 0, 0, 0, 0, 0, 0, 0xff, 0xff, 10, 0, 0, 1], Port = 8233\<rparr>,
               blacklisted = False, lastUpdate = 5000000000\<rparr>
       = Inr (JoinHostPort (IP_String (ParseIP ''10.0.0.1'')) (Itoa 8233))"
proof -
  let ?k = "''10.0.0.1:08233''"
  let ?r = "\<lparr>netaddr = Some \<lparr>Timestamp = 5000000000, Services = 0,
                  IP = [0, 0, 0, 0, 0, 0, 0, 0, 0, 0, 0xff, 0xff, 10, 0, 0, 1], Port = 8233\<rparr>,
               blacklisted = False, lastUpdate = 5000000000\<rparr>"
  have r: "reachable (Add 5000000000 ?k NewAddressBook)"
    by (intro reachable.intros)
  have z: "fromPeerKey zeroAddress 5000000000 ?k = Inr ?r"
    by (simp add: address_defs split_defs uint_defs ip_defs)
  have l: "fmlookup (addrs (Add 5000000000 ?k NewAddressBook)) ?k = Some ?r"
    by (simp add: Add_def z)
  have s: "SplitHostPort ?k = Inr (''10.0.0.1'', ''08233'')"
    by (simp add: split_defs)
  have p: "ParseUint ''08233'' = Inr 8233"
    by (simp add: uint_defs)
  from record_is_parse_of_key [OF r l] s p
  have "asPeerKey ?r = Inr (JoinHostPort (IP_String (ParseIP ''10.0.0.1'')) (Itoa 8233))"
    by auto
  with r l s p show ?thesis by (intro conjI)
qed

subsection \<open>Blacklist (C4)\<close>

text \<open>
  C4: on a key that is present, \<open>Blacklist\<close> sets that record's \<open>blacklisted\<close> flag and
  sets its \<open>lastUpdate\<close> to the current time, leaving the rest of the book as it was; on
  a key that is absent and parses, it stores the parsed record with the flag set, so that
  the key is known and blacklisted afterwards; on a key that is absent and does not parse,
  the book is unchanged.
\<close>

theorem Blacklist_behaviour:
  "(\<forall>target. fmlookup (addrs bk) k = Some target \<longrightarrow>
      addrs (Blacklist now k bk)
        = fmupd k (target\<lparr>blacklisted := True, lastUpdate := now\<rparr>) (addrs bk))
   \<and> (\<forall>a. fmlookup (addrs bk) k = None \<and> fromPeerKey zeroAddress now k = Inr a \<longrightarrow>
        addrs (Blacklist now k bk) = fmupd k (a\<lparr>blacklisted := True\<rparr>) (addrs bk)
        \<and> IsKnown (Blacklist now k bk) k \<and> IsBlacklisted (Blacklist now k bk) k)
   \<and> (\<forall>err. fmlookup (addrs bk) k = None \<and> fromPeerKey zeroAddress now k = Inl err \<longrightarrow>
        Blacklist now k bk = bk)"
  by (auto simp: Blacklist_def IsKnown_def IsBlacklisted_def)

theorem Blacklist_behaviour_witness:
  "fmlookup (addrs (Blacklist 7000000000 ''10.0.0.1:8233''
       (Add 5000000000 ''10.0.0.1:8233'' NewAddressBook))) ''10.0.0.1:8233''
     = Some \<lparr>netaddr = Some \<lparr>Timestamp = 5000000000, Services = 0,
                IP = [0, 0, 0, 0, 0, 0, 0, 0, 0, 0, 0xff, 0xff, 10, 0, 0, 1], Port = 8233\<rparr>,
             blacklisted = True, lastUpdate = 7000000000\<rparr>
   \<and> IsKnown (Blacklist 7000000000 ''10.0.0.1:8233'' NewAddressBook) ''10.0.0.1:8233''
   \<and> IsBlacklisted (Blacklist 7000000000 ''10.0.0.1:8233'' NewAddressBook) ''10.0.0.1:8233''
   \<and> Blacklist 7000000000 ''not-an-address'' NewAddressBook = NewAddressBook"
proof -
  let ?k = "''10.0.0.1:8233''"
  let ?bk = "Add 5000000000 ?k NewAddressBook"
  let ?r = "\<lparr>netaddr = Some \<lparr>Timestamp = 5000000000, Services = 0,
                IP = [0, 0, 0, 0, 0, 0, 0, 0, 0, 0, 0xff, 0xff, 10, 0, 0, 1], Port = 8233\<rparr>,
             blacklisted = False, lastUpdate = 5000000000\<rparr>"
  have present: "fmlookup (addrs ?bk) ?k = Some ?r"
    by (simp add: Add_def NewAddressBook_def fromPeerKey_example)
  have absent: "fmlookup (addrs NewAddressBook) ?k = None"
      "fmlookup (addrs NewAddressBook) ''not-an-address'' = None"
    by (simp_all add: NewAddressBook_def)
  have parses: "fromPeerKey zeroAddress 7000000000 ?k
      = Inr \<lparr>netaddr = Some \<lparr>Timestamp = 7000000000, Services = 0,
                IP = [0, 0, 0, 0, 0, 0, 0, 0, 0, 0, 0xff, 0xff, 10, 0, 0, 1], Port = 8233\<rparr>,
             blacklisted = False, lastUpdate = 7000000000\<rparr>"
    by (simp add: fromPeerKey_example)
  have fails: "fromPeerKey zeroAddress 7000000000 ''not-an-address'' = Inl (AddrError missingPort)"
    by (rule fromPeerKey_malformed)
  show ?thesis
    using Blacklist_behaviour [of ?bk ?k 7000000000]
      Blacklist_behaviour [of NewAddressBook ?k 7000000000]
      Blacklist_behaviour [of NewAddressBook "''not-an-address''" 7000000000]
      present absent parses fails
    by simp
qed

subsection \<open>Adding again (C5)\<close>

text \<open>
  C5: for a key text that parses, \<open>Blacklist\<close> followed by \<open>Add\<close> of the same text
  leaves the key not blacklisted: \<open>Add\<close> replaces the entry by the freshly parsed record,
  whose flag is false.
\<close>

theorem readd_resets_blacklist:
  assumes "fromPeerKey zeroAddress now2 k = Inr a"
  shows "IsBlacklisted (Add now2 k (Blacklist now1 k bk)) k = False
         \<and> fmlookup (addrs (Add now2 k (Blacklist now1 k bk))) k = Some a
         \<and> blacklisted a = False"
proof -
  have "blacklisted a = False"
    using assms by (auto simp: fromPeerKey_Inr)
  then show ?thesis
    using assms by (simp add: Add_def IsBlacklisted_def)
qed

theorem readd_resets_blacklist_witness:
  "IsBlacklisted (Blacklist 5000000000 ''10.0.0.1:8233'' NewAddressBook) ''10.0.0.1:8233''
   \<and> IsBlacklisted (Add 7000000000 ''10.0.0.1:8233''
        (Blacklist 5000000000 ''10.0.0.1:8233'' NewAddressBook)) ''10.0.0.1:8233'' = False"
proof -
  have before: "IsBlacklisted (Blacklist 5000000000 ''10.0.0.1:8233'' NewAddressBook)
      ''10.0.0.1:8233''"
    by (simp add: IsBlacklisted_def Blacklist_def NewAddressBook_def fromPeerKey_example)
  have parses: "fromPeerKey zeroAddress 7000000000 ''10.0.0.1:8233''
      = Inr \<lparr>netaddr = Some \<lparr>Timestamp = 7000000000, Services = 0,
                IP = [0, 0, 0, 0, 0, 0, 0, 0, 0, 0, 0xff, 0xff, 10, 0, 0, 1], Port = 8233\<rparr>,
             blacklisted = False, lastUpdate = 7000000000\<rparr>"
    by (simp add: fromPeerKey_example)
  from readd_resets_blacklist [OF parses, of 5000000000 NewAddressBook] before
  show ?thesis by simp
qed

subsection \<open>Malformed input to Add (C6)\<close>

text \<open>
  C6: when the parse step fails on a text, \<open>Add\<close> of that text returns the book as it
  was: no entry is added, changed or removed. \<open>Add\<close> has no error result, and
  \<open>fromPeerKey\<close> no panic. In particular the text is not known afterwards in any
  reachable book, since every key of a reachable book parses.
\<close>

theorem Add_malformed_absorbed:
  assumes "fromPeerKey zeroAddress now s = Inl err"
  shows "Add now s bk = bk \<and> (reachable bk \<longrightarrow> \<not> IsKnown (Add now s bk) s)"
proof -
  have unchanged: "Add now s bk = bk"
    using assms by (simp add: Add_def)
  have "\<not> IsKnown bk s" if r: "reachable bk"
  proof
    assume "IsKnown bk s"
    then obtain a where "fmlookup (addrs bk) s = Some a"
      by (auto simp: IsKnown_def split: option.splits)
    from reachable_key_parses [OF r this]
    have "\<not> isl (fromPeerKey zeroAddress 0 s)" .
    moreover have "isl (fromPeerKey zeroAddress now s)"
      using assms by simp
    ultimately show False
      using fromPeerKey_isl_time [of zeroAddress now s zeroAddress 0] by simp
  qed
  with unchanged show ?thesis by simp
qed

theorem Add_malformed_absorbed_witness:
  "fromPeerKey zeroAddress 5000000000 ''not-an-address'' = Inl (AddrError missingPort)
   \<and> fromPeerKey zeroAddress 5000000000 ''10.0.0.1:65536'' = Inl ErrRange
   \<and> reachable (Add 3000000000 ''10.0.0.1:8233'' NewAddressBook)
   \<and> Add 5000000000 ''not-an-address'' (Add 3000000000 ''10.0.0.1:8233'' NewAddressBook)
       = Add 3000000000 ''10.0.0.1:8233'' NewAddressBook
   \<and> \<not> IsKnown (Add 5000000000 ''not-an-address''
           (Add 3000000000 ''10.0.0.1:8233'' NewAddressBook)) ''not-an-address''
   \<and> Add 5000000000 ''10.0.0.1:65536'' NewAddressBook = NewAddressBook
   \<and> \<not> IsKnown (Add 5000000000 ''10.0.0.1:65536'' NewAddressBook) ''10.0.0.1:65536''"
proof -
  let ?bk = "Add 3000000000 ''10.0.0.1:8233'' NewAddressBook"
  have shape: "fromPeerKey zeroAddress 5000000000 ''not-an-address'' = Inl (AddrError missingPort)"
    by (rule fromPeerKey_malformed)
  have range: "fromPeerKey zeroAddress 5000000000 ''10.0.0.1:65536'' = Inl ErrRange"
    by (simp add: address_defs split_defs uint_defs)
  have r: "reachable ?bk"
    by (intro reachable.intros)
  have r0: "reachable NewAddressBook"
    by (rule reachable_New)
  from Add_malformed_absorbed [OF shape, of ?bk] r
  have a: "Add 5000000000 ''not-an-address'' ?bk = ?bk"
    and b: "\<not> IsKnown (Add 5000000000 ''not-an-address'' ?bk) ''not-an-address''"
    by blast+
  from Add_malformed_absorbed [OF range, of NewAddressBook] r0
  have c: "Add 5000000000 ''10.0.0.1:65536'' NewAddressBook = NewAddressBook"
    and d: "\<not> IsKnown (Add 5000000000 ''10.0.0.1:65536'' NewAddressBook) ''10.0.0.1:65536''"
    by blast+
  from shape range r a b c d show ?thesis
    by (intro conjI)
qed

subsection \<open>Touch (C7)\<close>

text \<open>
  C7: on a key that is absent, \<open>Touch\<close> returns the book as it was, so the key stays
  unknown; on a key that is present, it changes that record's \<open>lastUpdate\<close> to the
  current time and nothing else: the record's \<open>netaddr\<close> and \<open>blacklisted\<close> and every
  other entry of the book are as before.
\<close>

theorem Touch_conditional_minimal:
  "(fmlookup (addrs bk) k = None \<longrightarrow>
      Touch now k bk = bk \<and> \<not> IsKnown (Touch now k bk) k)
   \<and> (\<forall>target. fmlookup (addrs bk) k = Some target \<longrightarrow>
        addrs (Touch now k bk) = fmupd k (target\<lparr>lastUpdate := now\<rparr>) (addrs bk)
        \<and> (\<exists>t'. fmlookup (addrs (Touch now k bk)) k = Some t'
               \<and> lastUpdate t' = now \<and> netaddr t' = netaddr target
               \<and> blacklisted t' = blacklisted target)
        \<and> (\<forall>k'. k' \<noteq> k \<longrightarrow>
              fmlookup (addrs (Touch now k bk)) k' = fmlookup (addrs bk) k'))"
  by (auto simp: Touch_def IsKnown_def)

theorem Touch_conditional_minimal_witness:
  "Touch 7000000000 ''10.0.0.1:8233'' NewAddressBook = NewAddressBook
   \<and> \<not> IsKnown (Touch 7000000000 ''10.0.0.1:8233'' NewAddressBook) ''10.0.0.1:8233''
   \<and> fmlookup (addrs (Touch 7000000000 ''10.0.0.1:8233''
        (Add 6000000000 ''10.0.0.2:8233'' (Blacklist 5000000000 ''10.0.0.1:8233'' NewAddressBook))))
        ''10.0.0.1:8233''
      = Some \<lparr>netaddr = Some \<lparr>Timestamp = 5000000000, Services = 0,
                 IP = [0, 0, 0, 0, 0, 0, 0, 0, 0, 0, 0xff, 0xff, 10, 0, 0, 1], Port = 8233\<rparr>,
              blacklisted = True, lastUpdate = 7000000000\<rparr>
   \<and> fmlookup (addrs (Touch 7000000000 ''10.0.0.1:8233''
        (Add 6000000000 ''10.0.0.2:8233'' (Blacklist 5000000000 ''10.0.0.1:8233'' NewAddressBook))))
        ''10.0.0.2:8233''
      = Some \<lparr>netaddr = Some \<lparr>Timestamp = 6000000000, Services = 0,
                 IP = [0, 0, 0, 0, 0, 0, 0, 0, 0, 0, 0xff, 0xff, 10, 0, 0, 2], Port = 8233\<rparr>,
              blacklisted = False, lastUpdate = 6000000000\<rparr>"
proof -
  let ?k = "''10.0.0.1:8233''"
  let ?bk = "Add 6000000000 ''10.0.0.2:8233'' (Blacklist 5000000000 ?k NewAddressBook)"
  have other: "fromPeerKey zeroAddress 6000000000 ''10.0.0.2:8233''
      = Inr \<lparr>netaddr = Some \<lparr>Timestamp = 6000000000, Services = 0,
                 IP = [0, 0, 0, 0, 0, 0, 0, 0, 0, 0, 0xff, 0xff, 10, 0, 0, 2], Port = 8233\<rparr>,
              blacklisted = False, lastUpdate = 6000000000\<rparr>"
    by (simp add: address_defs split_defs uint_defs ip_defs)
  have absent: "fmlookup (addrs NewAddressBook) ?k = None"
    by (simp add: NewAddressBook_def)
  have present: "fmlookup (addrs ?bk) ?k
      = Some \<lparr>netaddr = Some \<lparr>Timestamp = 5000000000, Services = 0,
                 IP = [0, 0, 0, 0, 0, 0, 0, 0, 0, 0, 0xff, 0xff, 10, 0, 0, 1], Port = 8233\<rparr>,
              blacklisted = True, lastUpdate = 5000000000\<rparr>"
    by (simp add: Add_def Blacklist_def NewAddressBook_def fromPeerKey_example other)
  have neighbour: "fmlookup (addrs ?bk) ''10.0.0.2:8233''
      = Some \<lparr>netaddr = Some \<lparr>Timestamp = 6000000000, Services = 0,
                 IP = [0, 0, 0, 0, 0, 0, 0, 0, 0, 0, 0xff, 0xff, 10, 0, 0, 2], Port = 8233\<rparr>,
              blacklisted = False, lastUpdate = 6000000000\<rparr>"
    by (simp add: Add_def Blacklist_def NewAddressBook_def fromPeerKey_example other)
  from Touch_conditional_minimal [of NewAddressBook ?k 7000000000] absent
  have a: "Touch 7000000000 ?k NewAddressBook = NewAddressBook"
    and b: "\<not> IsKnown (Touch 7000000000 ?k NewAddressBook) ?k"
    by blast+
  from Touch_conditional_minimal [of ?bk ?k 7000000000] present
  have c: "addrs (Touch 7000000000 ?k ?bk)
      = fmupd ?k (\<lparr>netaddr = Some \<lparr>Timestamp = 5000000000, Services = 0,
                 IP = [0, 0, 0, 0, 0, 0, 0, 0, 0, 0, 0xff, 0xff, 10, 0, 0, 1], Port = 8233\<rparr>,
              blacklisted = True, lastUpdate = 5000000000\<rparr>\<lparr>lastUpdate := 7000000000\<rparr>)
          (addrs ?bk)"
    by blast
  have d: "fmlookup (addrs (Touch 7000000000 ?k ?bk)) ?k
      = Some \<lparr>netaddr = Some \<lparr>Timestamp = 5000000000, Services = 0,
                 IP = [0, 0, 0, 0, 0, 0, 0, 0, 0, 0, 0xff, 0xff, 10, 0, 0, 1], Port = 8233\<rparr>,
              blacklisted = True, lastUpdate = 7000000000\<rparr>"
    by (simp add: c)
  have e: "fmlookup (addrs (Touch 7000000000 ?k ?bk)) ''10.0.0.2:8233''
      = fmlookup (addrs ?bk) ''10.0.0.2:8233''"
    by (simp add: c)
  from a b d e neighbour show ?thesis
    by simp
qed

subsection \<open>Back to a NetAddress (C8)\<close>

text \<open>
  C8, as stated: for every record, \<open>asNetAddress\<close> returns a \<open>NetAddress\<close>. On the zero
  \<open>Address{}\<close>, whose \<open>netaddr\<close> is nil, \<open>*a.netaddr\<close> panics.
\<close>

theorem asNetAddress_zero_panics:
  "asNetAddress zeroAddress = Inl NilPointerDereference"
  by (simp add: asNetAddress_def zeroAddress_def)

text \<open>
  C8, amended: for every record whose \<open>netaddr\<close> is set, \<open>asNetAddress\<close> returns a
  \<open>NetAddress\<close> whose \<open>Timestamp\<close> is the record's \<open>lastUpdate\<close> and whose \<open>IP\<close>,
  \<open>Port\<close> and \<open>Services\<close> are those of the stored one, and the record after the call
  is the record before it.
\<close>

theorem asNetAddress_copy:
  assumes "netaddr a = Some na"
  shows "\<exists>r a'. asNetAddress a = Inr (r, a') \<and> Timestamp r = lastUpdate a \<and> IP r = IP na
           \<and> Port r = Port na \<and> Services r = Services na \<and> a' = a"
  using assms by (simp add: asNetAddress_def)

theorem asNetAddress_copy_witness:
  "asNetAddress \<lparr>netaddr = Some \<lparr>Timestamp = 5000000000, Services = 0,
                   IP = [0, 0, 0, 0, 0, 0, 0, 0, 0, 0, 0xff, 0xff, 10, 0, 0, 1], Port = 8233\<rparr>,
                 blacklisted = True, lastUpdate = 7000000000\<rparr>
     = Inr (\<lparr>Timestamp = 7000000000, Services = 0,
             IP = [0, 0, 0, 0, 0, 0, 0, 0, 0, 0, 0xff, 0xff, 10, 0, 0, 1], Port = 8233\<rparr>,
            \<lparr>netaddr = Some \<lparr>Timestamp = 5000000000, Services = 0,
                   IP = [0, 0, 0, 0, 0, 0, 0, 0, 0, 0, 0xff, 0xff, 10, 0, 0, 1], Port = 8233\<rparr>,
                 blacklisted = True, lastUpdate = 7000000000\<rparr>)"
proof -
  let ?na = "\<lparr>Timestamp = 5000000000, Services = 0,
               IP = [0, 0, 0, 0, 0, 0, 0, 0, 0, 0, 0xff, 0xff, 10, 0, 0, 1], Port = 8233\<rparr>"
  let ?a = "\<lparr>netaddr = Some ?na, blacklisted = True, lastUpdate = 7000000000\<rparr>"
  have h: "netaddr ?a = Some ?na" by simp
  from asNetAddress_copy [OF h] obtain r a' where
    "asNetAddress ?a = Inr (r, a')" "Timestamp r = 7000000000" "IP r = IP ?na"
    "Port r = Port ?na" "Services r = Services ?na" "a' = ?a"
    by auto
  then show ?thesis by (cases r) simp
qed

subsection \<open>The host is not validated (C9)\<close>

text \<open>
  C9: for a text that \<open>SplitHostPort\<close> splits and whose port \<open>ParseUint\<close> accepts,
  \<open>fromPeerKey\<close> succeeds whatever the host is: the record holds the result of
  \<open>ParseIP\<close> as it comes, nil included. \<open>Add\<close> of such a text makes it known, and for
  a host that is not an IP address the record renders as \<open><nil>:port\<close>.
\<close>

theorem fromPeerKey_stores_ParseIP_unchecked:
  assumes "SplitHostPort s = Inr (host, portString)"
      and "ParseUint portString = Inr portInt"
  shows "fromPeerKey zeroAddress now s
           = Inr \<lparr>netaddr = Some (NewNetAddressTimestamp now 0 (ParseIP host) (of_nat portInt)),
                  blacklisted = False,
                  lastUpdate = (now div 1000000000) * 1000000000\<rparr>
         \<and> IsKnown (Add now s bk) s
         \<and> map_option String (fmlookup (addrs (Add now s bk)) s)
             = Some (Inr (JoinHostPort (IP_String (ParseIP host)) (Itoa (int portInt))))
         \<and> JoinHostPort (IP_String []) (Itoa (int portInt)) = ''<nil>:'' @ Itoa (int portInt)"
proof -
  have "uint (of_nat portInt :: 16 word) = int portInt"
    using ParseUint_bound [OF assms(2)] by (rule uint_port)
  then show ?thesis
    using assms
    by (simp add: fromPeerKey_def Add_def IsKnown_def zeroAddress_def String_def
          NewNetAddressTimestamp_def IP_String_def JoinHostPort_def)
qed

theorem fromPeerKey_stores_ParseIP_unchecked_witness:
  "SplitHostPort ''localhost:8233'' = Inr (''localhost'', ''8233'')
   \<and> ParseUint ''8233'' = Inr 8233
   \<and> ParseIP ''localhost'' = []
   \<and> fromPeerKey zeroAddress 5000000000 ''localhost:8233''
       = Inr \<lparr>netaddr = Some \<lparr>Timestamp = 5000000000, Services = 0, IP = [], Port = 8233\<rparr>,
              blacklisted = False, lastUpdate = 5000000000\<rparr>
   \<and> IsKnown (Add 5000000000 ''localhost:8233'' NewAddressBook) ''localhost:8233''
   \<and> map_option String (fmlookup (addrs (Add 5000000000 ''localhost:8233'' NewAddressBook))
        ''localhost:8233'') = Some (Inr ''<nil>:8233'')"
proof -
  have split: "SplitHostPort ''localhost:8233'' = Inr (''localhost'', ''8233'')"
    by (simp add: split_defs)
  have port: "ParseUint ''8233'' = Inr 8233"
    by (simp add: uint_defs)
  have nil: "ParseIP ''localhost'' = []"
    by (simp add: ParseIP_def)
  have rendered: "Itoa 8233 = ''8233''"
    by (simp add: render_defs)
  from fromPeerKey_stores_ParseIP_unchecked [OF split port, of 5000000000 NewAddressBook]
    split port nil rendered
  show ?thesis by (auto simp: NewNetAddressTimestamp_def)
qed

subsection \<open>MarshalText (C10)\<close>

text \<open>
  C10, as stated: \<open>MarshalText\<close> returns text and a nil error for every record. On the
  zero \<open>Address{}\<close>, whose \<open>netaddr\<close> is nil, \<open>String\<close> panics at \<open>a.netaddr.Port\<close>
  and \<open>MarshalText\<close> with it.
\<close>

theorem MarshalText_zero_panics:
  "MarshalText zeroAddress = Inl NilPointerDereference"
  by (simp add: MarshalText_def String_def zeroAddress_def)

text \<open>
  C10, amended: for every record whose \<open>netaddr\<close> is set, \<open>MarshalText\<close> returns the
  text \<open>String\<close> renders together with a nil error; and for no record at all does it
  return an error.
\<close>

theorem MarshalText_no_error:
  "(\<forall>na. netaddr a = Some na \<longrightarrow>
      String a = Inr (JoinHostPort (IP_String (IP na)) (Itoa (uint (Port na))))
      \<and> MarshalText a = Inr (JoinHostPort (IP_String (IP na)) (Itoa (uint (Port na))), None))
   \<and> (\<forall>txt err. MarshalText a \<noteq> Inr (txt, Some err))"
  by (auto simp: MarshalText_def String_def split: sum.splits option.splits)

theorem MarshalText_no_error_witness:
  "MarshalText \<lparr>netaddr = Some \<lparr>Timestamp = 5000000000, Services = 0,
                  IP = [0, 0, 0, 0, 0, 0, 0, 0, 0, 0, 0xff, 0xff, 10, 0, 0, 1], Port = 8233\<rparr>,
                blacklisted = False, lastUpdate = 5000000000\<rparr>
     = Inr (''10.0.0.1:8233'', None)
   \<and> MarshalText \<lparr>netaddr = Some \<lparr>Timestamp = 5000000000, Services = 0, IP = [], Port = 0\<rparr>,
                blacklisted = False, lastUpdate = 5000000000\<rparr>
     = Inr (''<nil>:0'', None)"
proof -
  let ?n1 = "\<lparr>Timestamp = 5000000000, Services = 0,
               IP = [0, 0, 0, 0, 0, 0, 0, 0, 0, 0, 0xff, 0xff, 10, 0, 0, 1], Port = 8233\<rparr>"
  let ?a1 = "\<lparr>netaddr = Some ?n1, blacklisted = False, lastUpdate = 5000000000\<rparr>"
  let ?n2 = "\<lparr>Timestamp = 5000000000, Services = 0, IP = [], Port = 0 :: 16 word\<rparr>"
  let ?a2 = "\<lparr>netaddr = Some ?n2, blacklisted = False, lastUpdate = 5000000000\<rparr>"
  have h1: "netaddr ?a1 = Some ?n1" and h2: "netaddr ?a2 = Some ?n2" by simp_all
  from MarshalText_no_error [of ?a1] h1
  have m1: "MarshalText ?a1
      = Inr (JoinHostPort (IP_String (IP ?n1)) (Itoa (uint (Port ?n1))), None)"
    by blast
  from MarshalText_no_error [of ?a2] h2
  have m2: "MarshalText ?a2
      = Inr (JoinHostPort (IP_String (IP ?n2)) (Itoa (uint (Port ?n2))), None)"
    by blast
  have t1: "JoinHostPort (IP_String (IP ?n1)) (Itoa (uint (Port ?n1))) = ''10.0.0.1:8233''"
    by (simp add: render_defs)
  have t2: "JoinHostPort (IP_String (IP ?n2)) (Itoa (uint (Port ?n2))) = ''<nil>:0''"
    by (simp add: render_defs)
  from m1 m2 t1 t2 show ?thesis by simp
qed

end
